theory Spec2Isabelle
  imports Main
begin

section \<open>The Python runtime the validator relies on\<close>

text \<open>
  A Python \<open>str\<close> is a sequence of Unicode code points, so a string is modelled as a list
  of code points (natural numbers); \<open>len\<close> is \<open>length\<close>, slicing is \<open>take\<close>, \<open>+\<close> is
  \<open>@\<close>. \<open>py_str\<close> turns an ASCII literal into such a string.
\<close>

type_synonym codepoint = nat
type_synonym pystr = "codepoint list"

definition py_str :: "string \<Rightarrow> pystr" where
  "py_str s = map of_char s"

text \<open>The only exception the validator can let escape: \<open>int(d)\<close> on a bad literal.\<close>

datatype error = ValueError

text \<open>
  The Unicode character database as CPython reads it (Unicode 14.0). The decimal digits
  (Numeric_Type=Decimal) come in runs of ten, values 0 to 9, each run starting at one of
  \<open>decimal_zeros\<close>; \<open>other_digit_ranges\<close> are the code points with Numeric_Type=Digit
  (superscripts, subscripts, circled digits and the like), given as inclusive ranges.
  Later versions of the database add characters to both tables; the ASCII digits, the
  Arabic-Indic digits from U+0660 and the superscripts U+00B2, U+00B3 and U+00B9 are in
  every version.
\<close>

definition decimal_zeros :: "codepoint list" where
  "decimal_zeros =
    [0x30, 0x660, 0x6F0, 0x7C0, 0x966, 0x9E6, 0xA66, 0xAE6, 0xB66, 0xBE6, 0xC66, 0xCE6,
     0xD66, 0xDE6, 0xE50, 0xED0, 0xF20, 0x1040, 0x1090, 0x17E0, 0x1810, 0x1946, 0x19D0,
     0x1A80, 0x1A90, 0x1B50, 0x1BB0, 0x1C40, 0x1C50, 0xA620, 0xA8D0, 0xA900, 0xA9D0,
     0xA9F0, 0xAA50, 0xABF0, 0xFF10, 0x104A0, 0x10D30, 0x11066, 0x110F0, 0x11136,
     0x111D0, 0x112F0, 0x11450, 0x114D0, 0x11650, 0x116C0, 0x11730, 0x118E0, 0x11950,
     0x11C50, 0x11D50, 0x11DA0, 0x16A60, 0x16AC0, 0x16B50, 0x1D7CE, 0x1D7D8, 0x1D7E2,
     0x1D7EC, 0x1D7F6, 0x1E140, 0x1E2F0, 0x1E950, 0x1FBF0]"

definition other_digit_ranges :: "(codepoint \<times> codepoint) list" where
  "other_digit_ranges =
    [(0xB2, 0xB3), (0xB9, 0xB9), (0x1369, 0x1371), (0x19DA, 0x19DA), (0x2070, 0x2070),
     (0x2074, 0x2079), (0x2080, 0x2089), (0x2460, 0x2468), (0x2474, 0x247C),
     (0x2488, 0x2490), (0x24EA, 0x24EA), (0x24F5, 0x24FD), (0x24FF, 0x24FF),
     (0x2776, 0x277E), (0x2780, 0x2788), (0x278A, 0x2792), (0x10A40, 0x10A43),
     (0x10E60, 0x10E68), (0x11052, 0x1105A), (0x1F100, 0x1F10A)]"

definition decimal_value :: "codepoint \<Rightarrow> nat option" where
  "decimal_value c =
     (case List.find (\<lambda>z. z \<le> c \<and> c < z + 10) decimal_zeros of
        None \<Rightarrow> None
      | Some z \<Rightarrow> Some (c - z))"

definition char_isdigit :: "codepoint \<Rightarrow> bool" where
  "char_isdigit c =
     (decimal_value c \<noteq> None \<or> list_ex (\<lambda>(lo, hi). lo \<le> c \<and> c \<le> hi) other_digit_ranges)"

text \<open>\<open>s.isdigit()\<close>: at least one character, and every character a digit.\<close>

definition str_isdigit :: "pystr \<Rightarrow> bool" where
  "str_isdigit s = (s \<noteq> [] \<and> list_all char_isdigit s)"

text \<open>
  \<open>int(d)\<close> for a one-character string \<open>d\<close>: the value of a decimal digit, and
  \<open>ValueError\<close> for every other character (also for one that \<open>isdigit\<close> accepts but that
  is not decimal).
\<close>

definition py_int :: "codepoint \<Rightarrow> error + int" where
  "py_int d = (case decimal_value d of None \<Rightarrow> Inl ValueError | Some v \<Rightarrow> Inr (int v))"

text \<open>\<open>[int(d) for d in pin]\<close>: the first bad character raises.\<close>

fun to_digits :: "pystr \<Rightarrow> error + int list" where
  "to_digits [] = Inr []"
| "to_digits (d # ds) =
     (case py_int d of
        Inl e \<Rightarrow> Inl e
      | Inr v \<Rightarrow> (case to_digits ds of Inl e \<Rightarrow> Inl e | Inr vs \<Rightarrow> Inr (v # vs)))"

text \<open>
  \<open>f"{n:02d}"\<close>: the decimal representation of an integer, padded with zeros on the left to
  a width of two; a negative number carries its sign and is then already two wide.
\<close>

fun decimal_repr :: "nat \<Rightarrow> pystr" where
  "decimal_repr n = (if n < 10 then [48 + n] else decimal_repr (n div 10) @ [48 + n mod 10])"

declare decimal_repr.simps [simp del]

definition format_02d :: "int \<Rightarrow> pystr" where
  "format_02d n =
     (if n < 0 then 45 # decimal_repr (nat (- n))
      else (let s = decimal_repr (nat n) in replicate (2 - length s) 48 @ s))"

section \<open>Reason codes and the verdict\<close>

definition REASON_COMMONLY_USED :: pystr where
  "REASON_COMMONLY_USED = py_str ''COMMONLY_USED''"

definition REASON_DOB_SELF :: pystr where
  "REASON_DOB_SELF = py_str ''DEMOGRAPHIC_DOB_SELF''"

definition REASON_DOB_SPOUSE :: pystr where
  "REASON_DOB_SPOUSE = py_str ''DEMOGRAPHIC_DOB_SPOUSE''"

definition REASON_ANNIVERSARY :: pystr where
  "REASON_ANNIVERSARY = py_str ''DEMOGRAPHIC_ANNIVERSARY''"

text \<open>The dictionary \<open>{"strength": ..., "reasons": ...}\<close> that the validator returns.\<close>

record verdict =
  strength :: pystr
  reasons :: "pystr list"

section \<open>Structural detectors\<close>

text \<open>
  \<open>is_sequence\<close>. The loop \<open>for i in range(1, len(digits) - 1)\<close> returns False at the first
  index that breaks the step and True otherwise: \<open>list_all\<close> over the index range.
\<close>

definition is_sequence :: "pystr \<Rightarrow> error + bool" where
  "is_sequence pin =
     (if length pin < 2 then Inr False
      else case to_digits pin of
        Inl e \<Rightarrow> Inl e
      | Inr digits \<Rightarrow>
          (let step = (digits ! 1 - digits ! 0) mod 10;
               step = (if step > 5 then step - 10 else step)
           in Inr (list_all (\<lambda>i. digits ! (i + 1) = (digits ! i + step) mod 10)
                     [1 ..< length digits - 1])))"

text \<open>
  \<open>is_repetition\<close>. \<open>pattern * k\<close> is the pattern written \<open>k\<close> times; the loop returns True
  at the first pattern length that tiles the PIN: \<open>list_ex\<close> over \<open>range(1, n // 2 + 1)\<close>.
\<close>

definition is_repetition :: "pystr \<Rightarrow> bool" where
  "is_repetition pin =
     (let pin_length = length pin in
      if pin_length < 2 then False
      else if card (set pin) = 1 then True
      else list_ex (\<lambda>pattern_length.
             pin_length mod pattern_length = 0 \<and>
             (let pattern = take pattern_length pin
              in concat (replicate (pin_length div pattern_length) pattern) = pin))
           [1 ..< pin_length div 2 + 1])"

definition is_palindrome :: "pystr \<Rightarrow> bool" where
  "is_palindrome pin = (pin = rev pin)"

subsection \<open>Keypad geometry\<close>

definition KEYPAD_COORDS :: "codepoint \<rightharpoonup> int \<times> int" where
  "KEYPAD_COORDS = map_of
     [(of_char CHR ''1'', (0, 0)), (of_char CHR ''2'', (1, 0)), (of_char CHR ''3'', (2, 0)),
      (of_char CHR ''4'', (0, 1)), (of_char CHR ''5'', (1, 1)), (of_char CHR ''6'', (2, 1)),
      (of_char CHR ''7'', (0, 2)), (of_char CHR ''8'', (1, 2)), (of_char CHR ''9'', (2, 2)),
      (of_char CHR ''0'', (1, 3))]"

text \<open>\<open>_is_collinear\<close> in the source.\<close>

definition is_collinear :: "int \<times> int \<Rightarrow> int \<times> int \<Rightarrow> int \<times> int \<Rightarrow> bool" where
  "is_collinear p1 p2 p3 =
     (case p1 of (x1, y1) \<Rightarrow> case p2 of (x2, y2) \<Rightarrow> case p3 of (x3, y3) \<Rightarrow>
        (y2 - y1) * (x3 - x2) = (y3 - y2) * (x2 - x1))"

text \<open>The counter of the L-shape check: the loop \<open>for i in range(1, 3)\<close>.\<close>

definition right_angles :: "(int \<times> int) list \<Rightarrow> nat" where
  "right_angles coords =
     fold (\<lambda>i ra.
        let dx1 = fst (coords ! i) - fst (coords ! (i - 1));
            dy1 = snd (coords ! i) - snd (coords ! (i - 1));
            dx2 = fst (coords ! (i + 1)) - fst (coords ! i);
            dy2 = snd (coords ! (i + 1)) - snd (coords ! i)
        in if dx1 * dx2 + dy1 * dy2 = 0 then ra + 1 else ra)
       [1 ..< 3] 0"

text \<open>
  \<open>is_keypad_pattern\<close>. A character without a keypad coordinate raises \<open>KeyError\<close> inside
  the \<open>try\<close>, which the function turns into False: \<open>those\<close> is \<open>None\<close> then. The line
  check leaves its loop at the first triple that is not collinear: \<open>list_all\<close>.
\<close>

definition is_keypad_pattern :: "pystr \<Rightarrow> bool" where
  "is_keypad_pattern pin =
     (if length pin < 3 then False
      else case those (map KEYPAD_COORDS pin) of
        None \<Rightarrow> False
      | Some coords \<Rightarrow>
          if length coords \<ge> 3 \<and>
             list_all (\<lambda>i. is_collinear (coords ! i) (coords ! (i + 1)) (coords ! (i + 2)))
               [0 ..< length coords - 2]
          then True
          else if length coords = 4 \<and> right_angles coords = 1 then True
          else if pin \<in> {py_str ''1397'', py_str ''1793'', py_str ''3179'', py_str ''3971'',
                          py_str ''7139'', py_str ''7931'', py_str ''9317'', py_str ''9713''}
          then True
          else False)"

section \<open>Date-based detection\<close>

text \<open>
  The validator reads only the attributes \<open>year\<close>, \<open>month\<close> and \<open>day\<close> of a date, all
  integers. \<open>_is_valid_date\<close> in the source.
\<close>

record date =
  year :: int
  month :: int
  day :: int

definition is_valid_date :: "date \<Rightarrow> bool" where
  "is_valid_date d =
     (if month d < 1 \<or> month d > 12 then False
      else if month d \<in> {1, 3, 5, 7, 8, 10, 12} then 1 \<le> day d \<and> day d \<le> 31
      else if month d \<in> {4, 6, 9, 11} then 1 \<le> day d \<and> day d \<le> 30
      else (let is_leap = (year d mod 4 = 0 \<and> year d mod 100 \<noteq> 0) \<or> year d mod 400 = 0
            in 1 \<le> day d \<and> day d \<le> (if is_leap then 29 else 28)))"

text \<open>
  \<open>generate_date_pins\<close>. The source reads the clock (\<open>date.today().year\<close>); the year it
  reads is the parameter \<open>current_year\<close>. \<open>add_century_pins\<close> is the body of the loop over
  the two century buckets.
\<close>

definition add_century_pins :: "pystr \<Rightarrow> pystr \<Rightarrow> date \<Rightarrow> int \<Rightarrow> pystr set \<Rightarrow> pystr set" where
  "add_century_pins dd mm d century pins =
     (let year_in_century = year d - century in
      if 0 \<le> year_in_century \<and> year_in_century < 100
      then (let yy = format_02d year_in_century;
                pins = insert (dd @ mm @ yy) pins;
                pins = insert (mm @ dd @ yy) pins;
                pins = insert (yy @ mm @ dd) pins
            in pins)
      else pins)"

definition generate_date_pins :: "int \<Rightarrow> date \<Rightarrow> pystr set" where
  "generate_date_pins current_year d =
     (if \<not> is_valid_date d then {}
      else
        (let pins = {};
             dd = format_02d (day d);
             mm = format_02d (month d);
             current_century = current_year div 100 * 100;
             pins = insert (dd @ mm) pins;
             pins = insert (mm @ dd) pins;
             pins = fold (add_century_pins dd mm d) [current_century - 100, current_century] pins;
             yy_direct = format_02d (year d mod 100);
             pins = insert (dd @ mm @ yy_direct) pins;
             pins = insert (mm @ dd @ yy_direct) pins;
             pins = insert (yy_direct @ mm @ dd) pins
         in {p \<in> pins. length p \<in> {4, 6} \<and> str_isdigit p}))"

section \<open>The main validator\<close>

text \<open>
  \<open>check_pin_strength\<close>. \<open>Inl\<close> is an exception escaping to the caller. \<open>is_sequence\<close> is
  the first operand of the \<open>or\<close> chain, so its exception escapes before any other detector
  runs. An absent date is \<open>None\<close>; a date object is always true in a condition.
  \<open>date_matches\<close> is the condition of each of the three date checks:
  \<open>dob and _is_valid_date(dob) and pin in generate_date_pins(dob)\<close>.
\<close>

definition date_matches :: "int \<Rightarrow> pystr \<Rightarrow> date option \<Rightarrow> bool" where
  "date_matches current_year pin dob =
     (case dob of
        None \<Rightarrow> False
      | Some d \<Rightarrow> is_valid_date d \<and> pin \<in> generate_date_pins current_year d)"

definition check_pin_strength ::
  "int \<Rightarrow> pystr \<Rightarrow> date option \<Rightarrow> date option \<Rightarrow> date option \<Rightarrow> error + verdict" where
  "check_pin_strength current_year pin dob_self dob_spouse anniversary =
     (let reasons = [] in
      if pin = [] \<or> \<not> str_isdigit pin \<or> length pin \<notin> {4, 6}
      then Inr \<lparr>strength = py_str ''STRONG'', reasons = []\<rparr>
      else case is_sequence pin of
        Inl e \<Rightarrow> Inl e
      | Inr seq \<Rightarrow>
          (let reasons = (if seq \<or> is_repetition pin \<or> is_palindrome pin \<or> is_keypad_pattern pin
                          then reasons @ [REASON_COMMONLY_USED] else reasons);
               reasons = (if date_matches current_year pin dob_self
                          then reasons @ [REASON_DOB_SELF] else reasons);
               reasons = (if date_matches current_year pin dob_spouse
                          then reasons @ [REASON_DOB_SPOUSE] else reasons);
               reasons = (if date_matches current_year pin anniversary
                          then reasons @ [REASON_ANNIVERSARY] else reasons)
           in Inr \<lparr>strength = (if reasons \<noteq> [] then py_str ''WEAK'' else py_str ''STRONG''),
                   reasons = reasons\<rparr>))"

section \<open>Facts about the runtime model\<close>

lemma decimal_value_ascii: "48 \<le> c \<Longrightarrow> c < 58 \<Longrightarrow> decimal_value c = Some (c - 48)"
  by (simp add: decimal_value_def decimal_zeros_def)

lemma char_isdigit_ascii: "48 \<le> c \<Longrightarrow> c < 58 \<Longrightarrow> char_isdigit c"
  by (simp add: char_isdigit_def decimal_value_ascii)

lemma decimal_repr_small: "n < 10 \<Longrightarrow> decimal_repr n = [48 + n]"
  by (subst decimal_repr.simps) simp

lemma decimal_repr_two: "10 \<le> n \<Longrightarrow> n < 100 \<Longrightarrow> decimal_repr n = [48 + n div 10, 48 + n mod 10]"
  by (subst decimal_repr.simps) (simp add: decimal_repr_small)

lemma format_02d_two_digits:
  assumes "0 \<le> n" "n < 100"
  shows "format_02d n = [48 + nat n div 10, 48 + nat n mod 10]"
proof (cases "nat n < 10")
  case True
  then show ?thesis using assms by (simp add: format_02d_def decimal_repr_small)
next
  case False
  then have "10 \<le> nat n" "nat n < 100" using assms by auto
  then show ?thesis using assms by (simp add: format_02d_def decimal_repr_two)
qed

lemma format_02d_isdigit:
  assumes "0 \<le> n" "n < 100"
  shows "length (format_02d n) = 2 \<and> list_all char_isdigit (format_02d n)"
proof -
  have "nat n div 10 < 10" using assms by auto
  moreover have "nat n mod 10 < 10" by simp
  ultimately show ?thesis
    by (simp add: format_02d_two_digits [OF assms] char_isdigit_ascii)
qed

lemma valid_date_ranges:
  "is_valid_date d \<Longrightarrow> 1 \<le> day d \<and> day d \<le> 31 \<and> 1 \<le> month d \<and> month d \<le> 12"
  by (auto simp: is_valid_date_def Let_def split: if_splits)

lemma year_in_century:
  fixes y c :: int
  assumes "c mod 100 = 0" "0 \<le> y - c" "y - c < 100"
  shows "y - c = y mod 100"
proof -
  have "(y - c) mod 100 = (y mod 100 - c mod 100) mod 100"
    by (rule mod_diff_eq [symmetric])
  also have "\<dots> = y mod 100"
    using assms(1) by simp
  finally show ?thesis
    using assms(2,3) by simp
qed

lemma current_century_mod:
  "(cy div 100 * 100 - 100) mod 100 = (0::int)" "(cy div 100 * 100) mod 100 = (0::int)"
proof -
  have "cy div 100 * 100 - 100 = (cy div 100 - 1) * 100"
    by (simp add: algebra_simps)
  then show "(cy div 100 * 100 - 100) mod 100 = 0"
    by (simp only: mod_mult_self2_is_0)
  show "(cy div 100 * 100) mod 100 = 0"
    by (rule mod_mult_self2_is_0)
qed

lemma add_century_pins_absorbed:
  assumes "century mod 100 = 0"
  shows "add_century_pins dd mm d century pins \<union>
           {format_02d (year d mod 100) @ mm @ dd, mm @ dd @ format_02d (year d mod 100),
            dd @ mm @ format_02d (year d mod 100)}
         = pins \<union>
           {format_02d (year d mod 100) @ mm @ dd, mm @ dd @ format_02d (year d mod 100),
            dd @ mm @ format_02d (year d mod 100)}"
proof (cases "0 \<le> year d - century \<and> year d - century < 100")
  case True
  then have "year d - century = year d mod 100"
    using assms year_in_century [of century "year d"] by simp
  then show ?thesis using True by (auto simp: add_century_pins_def Let_def)
next
  case False
  then show ?thesis by (auto simp: add_century_pins_def Let_def)
qed

lemma century_loop_absorbed:
  "fold (add_century_pins dd mm d) [cy div 100 * 100 - 100, cy div 100 * 100] pins \<union>
     {format_02d (year d mod 100) @ mm @ dd, mm @ dd @ format_02d (year d mod 100),
      dd @ mm @ format_02d (year d mod 100)}
   = pins \<union>
     {format_02d (year d mod 100) @ mm @ dd, mm @ dd @ format_02d (year d mod 100),
      dd @ mm @ format_02d (year d mod 100)}"
proof -
  let ?D = "{format_02d (year d mod 100) @ mm @ dd, mm @ dd @ format_02d (year d mod 100),
             dd @ mm @ format_02d (year d mod 100)}"
  let ?a = "cy div 100 * 100 - 100" and ?b = "cy div 100 * 100"
  have "fold (add_century_pins dd mm d) [?a, ?b] pins \<union> ?D
        = add_century_pins dd mm d ?b (add_century_pins dd mm d ?a pins) \<union> ?D"
    by simp
  also have "\<dots> = add_century_pins dd mm d ?a pins \<union> ?D"
    by (rule add_century_pins_absorbed) (rule current_century_mod)
  also have "\<dots> = pins \<union> ?D"
    by (rule add_century_pins_absorbed) (rule current_century_mod)
  finally show ?thesis .
qed

lemma generate_date_pins_unfiltered:
  "generate_date_pins cy d =
     (if \<not> is_valid_date d then {}
      else {p \<in> {format_02d (month d) @ format_02d (day d),
                  format_02d (day d) @ format_02d (month d)} \<union>
                 {format_02d (year d mod 100) @ format_02d (month d) @ format_02d (day d),
                  format_02d (month d) @ format_02d (day d) @ format_02d (year d mod 100),
                  format_02d (day d) @ format_02d (month d) @ format_02d (year d mod 100)}.
            length p \<in> {4, 6} \<and> str_isdigit p})"
proof -
  let ?dd = "format_02d (day d)" and ?mm = "format_02d (month d)"
  let ?yy = "format_02d (year d mod 100)"
  define F where
    "F = fold (add_century_pins ?dd ?mm d) [cy div 100 * 100 - 100, cy div 100 * 100]
           {?mm @ ?dd, ?dd @ ?mm}"
  have "insert (?yy @ ?mm @ ?dd) (insert (?mm @ ?dd @ ?yy) (insert (?dd @ ?mm @ ?yy) F))
        = F \<union> {?yy @ ?mm @ ?dd, ?mm @ ?dd @ ?yy, ?dd @ ?mm @ ?yy}"
    by auto
  also have "\<dots> = {?mm @ ?dd, ?dd @ ?mm} \<union> {?yy @ ?mm @ ?dd, ?mm @ ?dd @ ?yy, ?dd @ ?mm @ ?yy}"
    unfolding F_def by (rule century_loop_absorbed)
  finally show ?thesis
    unfolding F_def by (simp only: generate_date_pins_def Let_def)
qed

lemma generate_date_pins_valid:
  assumes "is_valid_date d"
  shows "generate_date_pins cy d =
           {format_02d (day d) @ format_02d (month d),
            format_02d (month d) @ format_02d (day d),
            format_02d (day d) @ format_02d (month d) @ format_02d (year d mod 100),
            format_02d (month d) @ format_02d (day d) @ format_02d (year d mod 100),
            format_02d (year d mod 100) @ format_02d (month d) @ format_02d (day d)}"
proof -
  have r: "1 \<le> day d \<and> day d \<le> 31 \<and> 1 \<le> month d \<and> month d \<le> 12"
    using assms by (rule valid_date_ranges)
  have dd: "length (format_02d (day d)) = 2 \<and> list_all char_isdigit (format_02d (day d))"
    using r by (intro format_02d_isdigit) auto
  have mm: "length (format_02d (month d)) = 2 \<and> list_all char_isdigit (format_02d (month d))"
    using r by (intro format_02d_isdigit) auto
  have yy: "length (format_02d (year d mod 100)) = 2 \<and>
            list_all char_isdigit (format_02d (year d mod 100))"
    by (intro format_02d_isdigit) auto
  show ?thesis
    unfolding generate_date_pins_unfiltered using assms dd mm yy
    by (auto simp: str_isdigit_def)
qed

lemma generate_date_pins_clock: "generate_date_pins cy1 d = generate_date_pins cy2 d"
  by (simp only: generate_date_pins_unfiltered)

lemma date_matches_clock: "date_matches cy1 pin dob = date_matches cy2 pin dob"
  by (simp add: date_matches_def generate_date_pins_clock [of cy1 _ cy2] split: option.split)

lemma to_digits_ascii:
  "list_all (\<lambda>c. 48 \<le> c \<and> c < 58) s \<Longrightarrow> to_digits s = Inr (map (\<lambda>c. int (c - 48)) s)"
  by (induction s) (simp_all add: py_int_def decimal_value_ascii)

lemma str_isdigit_ascii:
  "s \<noteq> [] \<Longrightarrow> list_all (\<lambda>c. 48 \<le> c \<and> c < 58) s \<Longrightarrow> str_isdigit s"
  by (simp add: str_isdigit_def list_all_iff char_isdigit_ascii)

lemma to_digits_raises_iff:
  "to_digits s = Inl ValueError \<longleftrightarrow> (\<exists>ch \<in> set s. decimal_value ch = None)"
  by (induction s) (auto simp: py_int_def split: option.splits sum.splits)

section \<open>Facts about the detectors\<close>

lemma step_mod:
  fixes x m :: int
  shows "(x + (if 5 < m mod 10 then m mod 10 - 10 else m mod 10)) mod 10 = (x + m) mod 10"
proof -
  have "(x + (m mod 10 - 10)) mod 10 = (x + m mod 10 - 10) mod 10"
    by (simp add: algebra_simps)
  also have "\<dots> = (x + m mod 10) mod 10"
    by (rule minus_mod_self2)
  finally have "(x + (m mod 10 - 10)) mod 10 = (x + m mod 10) mod 10" .
  then have "(x + (if 5 < m mod 10 then m mod 10 - 10 else m mod 10)) mod 10
             = (x + m mod 10) mod 10"
    by simp
  also have "\<dots> = (x + m) mod 10"
    by (rule mod_add_right_eq)
  finally show ?thesis .
qed

lemma is_sequence_progression:
  assumes "2 \<le> length pin" "to_digits pin = Inr ds"
  shows "is_sequence pin =
           Inr (\<forall>i. 1 \<le> i \<and> i + 1 < length ds \<longrightarrow>
                  ds ! (i + 1) = (ds ! i + (ds ! 1 - ds ! 0)) mod 10)"
proof -
  have "list_all (\<lambda>i. ds ! (i + 1) = (ds ! i + (ds ! 1 - ds ! 0)) mod 10) [1 ..< length ds - 1]
        \<longleftrightarrow> (\<forall>i. 1 \<le> i \<and> i + 1 < length ds \<longrightarrow>
                  ds ! (i + 1) = (ds ! i + (ds ! 1 - ds ! 0)) mod 10)"
    by (auto simp: list_all_iff)
  then show ?thesis
    using assms(1) unfolding is_sequence_def assms(2) Let_def step_mod by simp
qed

lemma is_sequence_4:
  assumes "list_all (\<lambda>c. 48 \<le> c \<and> c < 58) [a, b, c, d]"
  shows "is_sequence [a, b, c, d] =
           Inr (int (c - 48) = (int (b - 48) + (int (b - 48) - int (a - 48))) mod 10 \<and>
                int (d - 48) = (int (c - 48) + (int (b - 48) - int (a - 48))) mod 10)"
proof -
  have n: "[1 ..< length (map (\<lambda>c. int (c - 48)) [a, b, c, d]) - 1] = [1, 2]"
    by (simp add: upt_rec)
  show ?thesis
    unfolding is_sequence_def to_digits_ascii [OF assms] Let_def n step_mod by simp
qed

lemma is_sequence_6:
  assumes "list_all (\<lambda>c. 48 \<le> c \<and> c < 58) [a, b, c, d, e, f]"
  shows "is_sequence [a, b, c, d, e, f] =
           Inr (int (c - 48) = (int (b - 48) + (int (b - 48) - int (a - 48))) mod 10 \<and>
                int (d - 48) = (int (c - 48) + (int (b - 48) - int (a - 48))) mod 10 \<and>
                int (e - 48) = (int (d - 48) + (int (b - 48) - int (a - 48))) mod 10 \<and>
                int (f - 48) = (int (e - 48) + (int (b - 48) - int (a - 48))) mod 10)"
proof -
  have n: "[1 ..< length (map (\<lambda>c. int (c - 48)) [a, b, c, d, e, f]) - 1] = [1, 2, 3, 4]"
    by (simp add: upt_rec)
  show ?thesis
    unfolding is_sequence_def to_digits_ascii [OF assms] Let_def n step_mod by simp
qed

lemma is_sequence_digits_4:
  assumes "to_digits [a, b, c, d] = Inr [w, x, y, z]"
  shows "is_sequence [a, b, c, d] = Inr (y = (x + (x - w)) mod 10 \<and> z = (y + (x - w)) mod 10)"
proof -
  have n: "[1 ..< length [w, x, y, z] - 1] = [1, 2]"
    by (simp add: upt_rec)
  show ?thesis
    unfolding is_sequence_def assms Let_def n step_mod by simp
qed

lemma replicate_small:
  "replicate 2 x = [x, x]" "replicate 3 x = [x, x, x]" "replicate 4 x = [x, x, x, x]"
  "replicate 6 x = [x, x, x, x, x, x]"
  by (simp_all add: numeral_eq_Suc)

lemma card_one_4: "card (set [a, b, c, d]) = 1 \<longleftrightarrow> a = b \<and> b = c \<and> c = d"
proof
  assume "card (set [a, b, c, d]) = 1"
  then obtain x where "set [a, b, c, d] = {x}"
    by (auto simp: card_1_singleton_iff)
  then show "a = b \<and> b = c \<and> c = d" by auto
next
  assume "a = b \<and> b = c \<and> c = d"
  then show "card (set [a, b, c, d]) = 1" by simp
qed

lemma card_one_6:
  "card (set [a, b, c, d, e, f]) = 1 \<longleftrightarrow> a = b \<and> b = c \<and> c = d \<and> d = e \<and> e = f"
proof
  assume "card (set [a, b, c, d, e, f]) = 1"
  then obtain x where "set [a, b, c, d, e, f] = {x}"
    by (auto simp: card_1_singleton_iff)
  then show "a = b \<and> b = c \<and> c = d \<and> d = e \<and> e = f" by auto
next
  assume "a = b \<and> b = c \<and> c = d \<and> d = e \<and> e = f"
  then show "card (set [a, b, c, d, e, f]) = 1" by simp
qed

lemma is_repetition_4:
  "is_repetition [a, b, c, d] = (a = b \<and> b = c \<and> c = d \<or> a = c \<and> b = d)"
proof -
  have l: "length [a, b, c, d] = 4" by simp
  have n: "[1 ..< 4 div 2 + 1] = [1, 2::nat]"
    by (simp add: upt_rec)
  show ?thesis
    unfolding is_repetition_def Let_def card_one_4 l n
    by (simp add: replicate_small) blast
qed

lemma is_repetition_6:
  "is_repetition [a, b, c, d, e, f] =
     (a = b \<and> b = c \<and> c = d \<and> d = e \<and> e = f \<or>
      a = c \<and> c = e \<and> b = d \<and> d = f \<or>
      a = d \<and> b = e \<and> c = f)"
proof -
  have l: "length [a, b, c, d, e, f] = 6" by simp
  have n: "[1 ..< 6 div 2 + 1] = [1, 2, 3::nat]"
    by (simp add: upt_rec)
  show ?thesis
    unfolding is_repetition_def Let_def card_one_6 l n
    by (simp add: replicate_small) blast
qed

lemma right_angles_4:
  "right_angles [(x0, y0), (x1, y1), (x2, y2), (x3, y3)] =
     (if (x1 - x0) * (x2 - x1) + (y1 - y0) * (y2 - y1) = 0 then 1 else 0) +
     (if (x2 - x1) * (x3 - x2) + (y2 - y1) * (y3 - y2) = 0 then 1 else 0)"
proof -
  have n: "[1 ..< 3] = [1, 2::nat]"
    by (simp add: upt_rec)
  show ?thesis
    unfolding right_angles_def n by (simp add: Let_def)
qed

lemma is_keypad_pattern_4:
  assumes "those (map KEYPAD_COORDS [a, b, c, d]) = Some [p0, p1, p2, p3]"
  shows "is_keypad_pattern [a, b, c, d] =
           (is_collinear p0 p1 p2 \<and> is_collinear p1 p2 p3 \<or>
            right_angles [p0, p1, p2, p3] = 1 \<or>
            [a, b, c, d] \<in> {py_str ''1397'', py_str ''1793'', py_str ''3179'', py_str ''3971'',
                             py_str ''7139'', py_str ''7931'', py_str ''9317'', py_str ''9713''})"
proof -
  have n: "[0 ..< length [p0, p1, p2, p3] - 2] = [0, 1]"
    by (simp add: upt_rec)
  show ?thesis
    unfolding is_keypad_pattern_def assms n by auto
qed

lemma is_keypad_pattern_6:
  assumes "those (map KEYPAD_COORDS [a, b, c, d, e, f]) = Some [p0, p1, p2, p3, p4, p5]"
  shows "is_keypad_pattern [a, b, c, d, e, f] =
           (is_collinear p0 p1 p2 \<and> is_collinear p1 p2 p3 \<and>
            is_collinear p2 p3 p4 \<and> is_collinear p3 p4 p5 \<or>
            [a, b, c, d, e, f] \<in>
              {py_str ''1397'', py_str ''1793'', py_str ''3179'', py_str ''3971'',
               py_str ''7139'', py_str ''7931'', py_str ''9317'', py_str ''9713''})"
proof -
  have n: "[0 ..< length [p0, p1, p2, p3, p4, p5] - 2] = [0, 1, 2, 3]"
    by (simp add: upt_rec)
  show ?thesis
    unfolding is_keypad_pattern_def assms n by auto
qed

section \<open>Facts about the main validator\<close>

lemma check_pin_strength_rejected:
  "pin = [] \<or> \<not> str_isdigit pin \<or> length pin \<notin> {4, 6} \<Longrightarrow>
   check_pin_strength cy pin a b c = Inr \<lparr>strength = py_str ''STRONG'', reasons = []\<rparr>"
  by (simp add: check_pin_strength_def)

lemma check_pin_strength_accepted:
  assumes "str_isdigit pin" "length pin = 4 \<or> length pin = 6" "is_sequence pin = Inr s"
  shows "check_pin_strength cy pin a b c =
           Inr \<lparr>strength =
                  (if (s \<or> is_repetition pin \<or> is_palindrome pin \<or> is_keypad_pattern pin) \<or>
                      date_matches cy pin a \<or> date_matches cy pin b \<or> date_matches cy pin c
                   then py_str ''WEAK'' else py_str ''STRONG''),
                reasons =
                  (if s \<or> is_repetition pin \<or> is_palindrome pin \<or> is_keypad_pattern pin
                   then [REASON_COMMONLY_USED] else []) @
                  (if date_matches cy pin a then [REASON_DOB_SELF] else []) @
                  (if date_matches cy pin b then [REASON_DOB_SPOUSE] else []) @
                  (if date_matches cy pin c then [REASON_ANNIVERSARY] else [])\<rparr>"
proof -
  have "pin \<noteq> []" using assms(2) by auto
  then show ?thesis
    using assms by (auto simp: check_pin_strength_def Let_def)
qed

lemma check_pin_strength_raises:
  assumes "str_isdigit pin" "length pin = 4 \<or> length pin = 6" "is_sequence pin = Inl e"
  shows "check_pin_strength cy pin a b c = Inl e"
proof -
  have "pin \<noteq> []" using assms(2) by auto
  then show ?thesis
    using assms by (auto simp: check_pin_strength_def Let_def)
qed

lemma date_matches_None: "\<not> date_matches cy pin None"
  by (simp add: date_matches_def)

lemma date_matches_invalid: "\<not> is_valid_date d \<Longrightarrow> \<not> date_matches cy pin (Some d)"
  by (simp add: date_matches_def)

lemma date_matches_valid:
  "is_valid_date d \<Longrightarrow>
   date_matches cy pin (Some d) \<longleftrightarrow>
     pin \<in> {format_02d (day d) @ format_02d (month d),
             format_02d (month d) @ format_02d (day d),
             format_02d (day d) @ format_02d (month d) @ format_02d (year d mod 100),
             format_02d (month d) @ format_02d (day d) @ format_02d (year d mod 100),
             format_02d (year d mod 100) @ format_02d (month d) @ format_02d (day d)}"
  by (simp only: date_matches_def option.case generate_date_pins_valid simp_thms)

section \<open>The detectors on the PINs of the test suite\<close>

lemma py_str_pins:
  "py_str ''1234'' = [49, 50, 51, 52]" "py_str ''8901'' = [56, 57, 48, 49]"
  "py_str ''9876'' = [57, 56, 55, 54]" "py_str ''2468'' = [50, 52, 54, 56]"
  "py_str ''1235'' = [49, 50, 51, 53]" "py_str ''2580'' = [50, 53, 56, 48]"
  "py_str ''1478'' = [49, 52, 55, 56]" "py_str ''1397'' = [49, 51, 57, 55]"
  "py_str ''1739'' = [49, 55, 51, 57]" "py_str ''0503'' = [48, 53, 48, 51]"
  "py_str ''0305'' = [48, 51, 48, 53]" "py_str ''2902'' = [50, 57, 48, 50]"
  "py_str ''020198'' = [48, 50, 48, 49, 57, 56]"
  "py_str ''020104'' = [48, 50, 48, 49, 48, 52]"
  by (simp_all add: py_str_def)

lemma corner_cycles:
  "{py_str ''1397'', py_str ''1793'', py_str ''3179'', py_str ''3971'',
    py_str ''7139'', py_str ''7931'', py_str ''9317'', py_str ''9713''}
   = {[49, 51, 57, 55], [49, 55, 57, 51], [51, 49, 55, 57], [51, 57, 55, 49],
      [55, 49, 51, 57], [55, 57, 51, 49], [57, 51, 49, 55], [57, 55, 49, 51]}"
  by (simp add: py_str_def)

lemma KEYPAD_COORDS_digits:
  "KEYPAD_COORDS 48 = Some (1, 3)" "KEYPAD_COORDS 49 = Some (0, 0)"
  "KEYPAD_COORDS 50 = Some (1, 0)" "KEYPAD_COORDS 51 = Some (2, 0)"
  "KEYPAD_COORDS 52 = Some (0, 1)" "KEYPAD_COORDS 53 = Some (1, 1)"
  "KEYPAD_COORDS 54 = Some (2, 1)" "KEYPAD_COORDS 55 = Some (0, 2)"
  "KEYPAD_COORDS 56 = Some (1, 2)" "KEYPAD_COORDS 57 = Some (2, 2)"
  by (simp_all add: KEYPAD_COORDS_def)

lemma is_sequence_examples:
  "is_sequence (py_str ''1234'') = Inr True" "is_sequence (py_str ''8901'') = Inr True"
  "is_sequence (py_str ''9876'') = Inr True" "is_sequence (py_str ''2468'') = Inr True"
  "is_sequence (py_str ''1235'') = Inr False" "is_sequence (py_str ''2580'') = Inr False"
  "is_sequence (py_str ''1478'') = Inr False" "is_sequence (py_str ''1397'') = Inr False"
  "is_sequence (py_str ''1739'') = Inr True" "is_sequence (py_str ''0503'') = Inr False"
  "is_sequence (py_str ''0305'') = Inr False" "is_sequence (py_str ''2902'') = Inr False"
  "is_sequence (py_str ''020198'') = Inr False" "is_sequence (py_str ''020104'') = Inr False"
  unfolding py_str_pins by (simp_all add: is_sequence_4 is_sequence_6)

lemma is_repetition_examples:
  "\<not> is_repetition (py_str ''1235'')" "\<not> is_repetition (py_str ''1739'')"
  "\<not> is_repetition (py_str ''0503'')" "\<not> is_repetition (py_str ''0305'')"
  "\<not> is_repetition (py_str ''2902'')" "\<not> is_repetition (py_str ''020198'')"
  "\<not> is_repetition (py_str ''020104'')"
  unfolding py_str_pins by (simp_all add: is_repetition_4 is_repetition_6)

lemma is_palindrome_examples:
  "\<not> is_palindrome (py_str ''1235'')" "\<not> is_palindrome (py_str ''1739'')"
  "\<not> is_palindrome (py_str ''0503'')" "\<not> is_palindrome (py_str ''0305'')"
  "\<not> is_palindrome (py_str ''2902'')" "\<not> is_palindrome (py_str ''020198'')"
  "\<not> is_palindrome (py_str ''020104'')"
  unfolding py_str_pins by (simp_all add: is_palindrome_def)

lemma is_keypad_pattern_examples:
  "is_keypad_pattern (py_str ''2580'')" "is_keypad_pattern (py_str ''1478'')"
  "is_keypad_pattern (py_str ''1397'')"
  "\<not> is_keypad_pattern (py_str ''1235'')" "\<not> is_keypad_pattern (py_str ''1739'')"
  "\<not> is_keypad_pattern (py_str ''0503'')" "\<not> is_keypad_pattern (py_str ''0305'')"
  "\<not> is_keypad_pattern (py_str ''2902'')" "\<not> is_keypad_pattern (py_str ''020198'')"
  "\<not> is_keypad_pattern (py_str ''020104'')"
  unfolding py_str_pins
  by (simp_all add: is_keypad_pattern_4 is_keypad_pattern_6 KEYPAD_COORDS_digits
        is_collinear_def right_angles_4 corner_cycles)

lemma str_isdigit_examples:
  "str_isdigit (py_str ''1234'')" "str_isdigit (py_str ''8901'')"
  "str_isdigit (py_str ''9876'')" "str_isdigit (py_str ''2468'')"
  "str_isdigit (py_str ''1235'')" "str_isdigit (py_str ''2580'')"
  "str_isdigit (py_str ''1478'')" "str_isdigit (py_str ''1397'')"
  "str_isdigit (py_str ''1739'')" "str_isdigit (py_str ''0503'')"
  "str_isdigit (py_str ''0305'')" "str_isdigit (py_str ''2902'')"
  "str_isdigit (py_str ''020198'')" "str_isdigit (py_str ''020104'')"
  unfolding py_str_pins by (simp_all add: str_isdigit_ascii)

lemma length_examples:
  "length (py_str ''1234'') = 4" "length (py_str ''8901'') = 4"
  "length (py_str ''9876'') = 4" "length (py_str ''2468'') = 4"
  "length (py_str ''1235'') = 4" "length (py_str ''2580'') = 4"
  "length (py_str ''1478'') = 4" "length (py_str ''1397'') = 4"
  "length (py_str ''1739'') = 4" "length (py_str ''0503'') = 4"
  "length (py_str ''0305'') = 4" "length (py_str ''2902'') = 4"
  "length (py_str ''020198'') = 6" "length (py_str ''020104'') = 6"
  by (simp_all add: py_str_def)

lemma reason_codes_distinct:
  "REASON_COMMONLY_USED \<noteq> REASON_DOB_SELF" "REASON_COMMONLY_USED \<noteq> REASON_DOB_SPOUSE"
  "REASON_COMMONLY_USED \<noteq> REASON_ANNIVERSARY" "REASON_DOB_SELF \<noteq> REASON_DOB_SPOUSE"
  "REASON_DOB_SELF \<noteq> REASON_ANNIVERSARY" "REASON_DOB_SPOUSE \<noteq> REASON_ANNIVERSARY"
  "py_str ''WEAK'' \<noteq> py_str ''STRONG''"
  by (simp_all add: REASON_COMMONLY_USED_def REASON_DOB_SELF_def REASON_DOB_SPOUSE_def
        REASON_ANNIVERSARY_def py_str_def)

lemma no_dates_weak:
  assumes "str_isdigit pin" "length pin = 4 \<or> length pin = 6" "is_sequence pin = Inr s"
    and "s \<or> is_repetition pin \<or> is_palindrome pin \<or> is_keypad_pattern pin"
  shows "check_pin_strength cy pin None None None =
           Inr \<lparr>strength = py_str ''WEAK'', reasons = [REASON_COMMONLY_USED]\<rparr>"
  using assms(4)
  by (simp add: check_pin_strength_accepted [OF assms(1-3)] date_matches_None)

lemma no_dates_strong:
  assumes "str_isdigit pin" "length pin = 4 \<or> length pin = 6" "is_sequence pin = Inr False"
    and "\<not> is_repetition pin" "\<not> is_palindrome pin" "\<not> is_keypad_pattern pin"
  shows "check_pin_strength cy pin None None None =
           Inr \<lparr>strength = py_str ''STRONG'', reasons = []\<rparr>"
  using assms(4-6)
  by (simp add: check_pin_strength_accepted [OF assms(1-3)] date_matches_None)

section \<open>The date projector on the dates of the test suite\<close>

lemma format_02d_examples:
  "format_02d 1 = py_str ''01''" "format_02d 2 = py_str ''02''" "format_02d 3 = py_str ''03''"
  "format_02d 4 = py_str ''04''" "format_02d 5 = py_str ''05''" "format_02d 12 = py_str ''12''"
  "format_02d 90 = py_str ''90''" "format_02d 98 = py_str ''98''"
  by (simp_all add: format_02d_two_digits py_str_def)

lemma is_valid_date_examples:
  "is_valid_date \<lparr>year = 2012, month = 3, day = 4\<rparr>"
  "is_valid_date \<lparr>year = 1990, month = 3, day = 5\<rparr>"
  "is_valid_date \<lparr>year = 1998, month = 1, day = 2\<rparr>"
  "is_valid_date \<lparr>year = 2004, month = 1, day = 2\<rparr>"
  "\<not> is_valid_date \<lparr>year = 1999, month = 2, day = 29\<rparr>"
  by (simp_all add: is_valid_date_def)

lemma generate_date_pins_examples:
  "generate_date_pins cy \<lparr>year = 2012, month = 3, day = 4\<rparr> =
     {py_str ''0403'', py_str ''0304'', py_str ''040312'', py_str ''030412'', py_str ''120304''}"
  "generate_date_pins cy \<lparr>year = 1990, month = 3, day = 5\<rparr> =
     {py_str ''0503'', py_str ''0305'', py_str ''050390'', py_str ''030590'', py_str ''900305''}"
  "generate_date_pins cy \<lparr>year = 1998, month = 1, day = 2\<rparr> =
     {py_str ''0201'', py_str ''0102'', py_str ''020198'', py_str ''010298'', py_str ''980102''}"
  "generate_date_pins cy \<lparr>year = 2004, month = 1, day = 2\<rparr> =
     {py_str ''0201'', py_str ''0102'', py_str ''020104'', py_str ''010204'', py_str ''040102''}"
  by (simp_all add: generate_date_pins_valid is_valid_date_examples format_02d_examples py_str_def)

lemma date_matches_examples:
  "\<not> date_matches cy (py_str ''1234'') (Some \<lparr>year = 2012, month = 3, day = 4\<rparr>)"
  "date_matches cy (py_str ''0503'') (Some \<lparr>year = 1990, month = 3, day = 5\<rparr>)"
  "date_matches cy (py_str ''0305'') (Some \<lparr>year = 1990, month = 3, day = 5\<rparr>)"
  "date_matches cy (py_str ''020198'') (Some \<lparr>year = 1998, month = 1, day = 2\<rparr>)"
  "date_matches cy (py_str ''020104'') (Some \<lparr>year = 2004, month = 1, day = 2\<rparr>)"
  by (simp_all add: date_matches_def is_valid_date_examples generate_date_pins_examples py_str_def)

lemma check_pin_strength_coupled:
  assumes "check_pin_strength cy pin a b c = Inr v"
  shows "strength v = (if reasons v \<noteq> [] then py_str ''WEAK'' else py_str ''STRONG'')"
proof (cases "pin = [] \<or> \<not> str_isdigit pin \<or> length pin \<notin> {4, 6}")
  case True
  then have "v = \<lparr>strength = py_str ''STRONG'', reasons = []\<rparr>"
    using assms by (simp add: check_pin_strength_rejected)
  then show ?thesis by simp
next
  case False
  then obtain s where s: "is_sequence pin = Inr s"
    using assms by (auto simp: check_pin_strength_def Let_def split: sum.splits)
  let ?common = "s \<or> is_repetition pin \<or> is_palindrome pin \<or> is_keypad_pattern pin"
  let ?rs = "(if ?common then [REASON_COMMONLY_USED] else []) @
             (if date_matches cy pin a then [REASON_DOB_SELF] else []) @
             (if date_matches cy pin b then [REASON_DOB_SPOUSE] else []) @
             (if date_matches cy pin c then [REASON_ANNIVERSARY] else [])"
  let ?weak = "?common \<or> date_matches cy pin a \<or> date_matches cy pin b \<or> date_matches cy pin c"
  have "check_pin_strength cy pin a b c =
          Inr \<lparr>strength = (if ?weak then py_str ''WEAK'' else py_str ''STRONG''), reasons = ?rs\<rparr>"
    using False s by (intro check_pin_strength_accepted) auto
  then have v: "v = \<lparr>strength = (if ?weak then py_str ''WEAK'' else py_str ''STRONG''),
                     reasons = ?rs\<rparr>"
    using assms by simp
  show ?thesis
    unfolding v by simp
qed

lemma check_pin_strength_reasons:
  assumes "check_pin_strength cy pin a b c = Inr v"
  shows "set (reasons v) \<subseteq>
           {REASON_COMMONLY_USED, REASON_DOB_SELF, REASON_DOB_SPOUSE, REASON_ANNIVERSARY}"
proof (cases "pin = [] \<or> \<not> str_isdigit pin \<or> length pin \<notin> {4, 6}")
  case True
  then have "v = \<lparr>strength = py_str ''STRONG'', reasons = []\<rparr>"
    using assms by (simp add: check_pin_strength_rejected)
  then show ?thesis by simp
next
  case False
  then obtain s where s: "is_sequence pin = Inr s"
    using assms by (auto simp: check_pin_strength_def Let_def split: sum.splits)
  let ?common = "s \<or> is_repetition pin \<or> is_palindrome pin \<or> is_keypad_pattern pin"
  let ?rs = "(if ?common then [REASON_COMMONLY_USED] else []) @
             (if date_matches cy pin a then [REASON_DOB_SELF] else []) @
             (if date_matches cy pin b then [REASON_DOB_SPOUSE] else []) @
             (if date_matches cy pin c then [REASON_ANNIVERSARY] else [])"
  let ?weak = "?common \<or> date_matches cy pin a \<or> date_matches cy pin b \<or> date_matches cy pin c"
  have "check_pin_strength cy pin a b c =
          Inr \<lparr>strength = (if ?weak then py_str ''WEAK'' else py_str ''STRONG''), reasons = ?rs\<rparr>"
    using False s by (intro check_pin_strength_accepted) auto
  then have v: "reasons v = ?rs"
    using assms by simp
  show ?thesis
    unfolding v by auto
qed

lemma check_pin_strength_raises_iff:
  "check_pin_strength cy pin a b c = Inl ValueError \<longleftrightarrow>
     str_isdigit pin \<and> length pin \<in> {4, 6} \<and> (\<exists>ch \<in> set pin. decimal_value ch = None)"
proof (cases "pin = [] \<or> \<not> str_isdigit pin \<or> length pin \<notin> {4, 6}")
  case True
  then show ?thesis
    by (auto simp: check_pin_strength_rejected)
next
  case False
  then have g: "str_isdigit pin" "length pin = 4 \<or> length pin = 6"
    by auto
  have "is_sequence pin = Inl ValueError \<longleftrightarrow> to_digits pin = Inl ValueError"
    using g(2) by (auto simp: is_sequence_def Let_def split: sum.splits)
  moreover have "check_pin_strength cy pin a b c = Inl ValueError \<longleftrightarrow>
                 is_sequence pin = Inl ValueError"
    using check_pin_strength_accepted [OF g] check_pin_strength_raises [OF g]
    by (cases "is_sequence pin") auto
  ultimately show ?thesis
    using g by (auto simp: to_digits_raises_iff)
qed

text \<open>
  What the format gate does reject: the empty PIN, a PIN with a character that
  \<open>isdigit\<close> refuses, and a PIN whose length is neither 4 nor 6.
\<close>

lemma format_gate_isdigit:
  assumes "pin = [] \<or> (\<exists>ch \<in> set pin. \<not> char_isdigit ch) \<or> length pin \<notin> {4, 6}"
  shows "check_pin_strength cy pin dob_self dob_spouse anniversary
           = Inr \<lparr>strength = py_str ''STRONG'', reasons = []\<rparr>"
proof -
  have "pin = [] \<or> \<not> str_isdigit pin \<or> length pin \<notin> {4, 6}"
    using assms by (auto simp: str_isdigit_def list_all_iff)
  then show ?thesis
    by (rule check_pin_strength_rejected)
qed

lemma arabic_indic_digits:
  "decimal_value 0x661 = Some 1" "decimal_value 0x662 = Some 2"
  "decimal_value 0x663 = Some 3" "decimal_value 0x664 = Some 4"
  by (simp_all add: decimal_value_def decimal_zeros_def)

lemma arabic_indic_pin:
  "str_isdigit [0x661, 0x662, 0x663, 0x664]"
  "is_sequence [0x661, 0x662, 0x663, 0x664] = Inr True"
proof -
  show "str_isdigit [0x661, 0x662, 0x663, 0x664]"
    by (simp add: str_isdigit_def char_isdigit_def arabic_indic_digits)
  have "to_digits [0x661, 0x662, 0x663, 0x664] = Inr [1, 2, 3, 4]"
    by (simp add: py_int_def arabic_indic_digits)
  then show "is_sequence [0x661, 0x662, 0x663, 0x664] = Inr True"
    by (simp add: is_sequence_digits_4)
qed

lemma card_five: "card {a, b, c, d, e} \<le> 5"
  using card_length [of "[a, b, c, d, e]"] by simp

section \<open>The claims\<close>

text \<open>
  Claim C1. PIN "1234" with dob_self = 2012-03-04 and no other date: the claim expects
  WEAK with COMMONLY_USED and then DEMOGRAPHIC_DOB_SELF. The date projector yields only
  the zero-padded forms 0403, 0304, 040312, 030412 and 120304 for that date, so "1234" is
  not among them: the validator returns WEAK with the single reason COMMONLY_USED,
  whatever year the clock shows.
\<close>

theorem sequence_with_dob_2012_03_04:
  "check_pin_strength cy (py_str ''1234'') (Some \<lparr>year = 2012, month = 3, day = 4\<rparr>) None None
     = Inr \<lparr>strength = py_str ''WEAK'', reasons = [REASON_COMMONLY_USED]\<rparr>
   \<and> py_str ''1234'' \<notin> generate_date_pins cy \<lparr>year = 2012, month = 3, day = 4\<rparr>
   \<and> generate_date_pins cy \<lparr>year = 2012, month = 3, day = 4\<rparr> =
       {py_str ''0403'', py_str ''0304'', py_str ''040312'', py_str ''030412'', py_str ''120304''}"
proof -
  have "check_pin_strength cy (py_str ''1234'') (Some \<lparr>year = 2012, month = 3, day = 4\<rparr>)
          None None
        = Inr \<lparr>strength = py_str ''WEAK'', reasons = [REASON_COMMONLY_USED]\<rparr>"
    by (simp add: check_pin_strength_accepted [where s = True] str_isdigit_examples
          length_examples is_sequence_examples date_matches_examples date_matches_None)
  moreover have "py_str ''1234'' \<notin> generate_date_pins cy \<lparr>year = 2012, month = 3, day = 4\<rparr>"
    by (simp add: generate_date_pins_examples py_str_def)
  ultimately show ?thesis
    by (simp only: generate_date_pins_examples simp_thms)
qed

theorem sequence_with_dob_2012_03_04_witness:
  "check_pin_strength 2026 (py_str ''1234'') (Some \<lparr>year = 2012, month = 3, day = 4\<rparr>) None None
     = Inr \<lparr>strength = py_str ''WEAK'', reasons = [REASON_COMMONLY_USED]\<rparr>"
  using sequence_with_dob_2012_03_04 [of 2026] by simp

text \<open>
  Claim C2. The claim expects STRONG with no reasons for every PIN that holds a character
  other than the decimal digits 0 to 9. The gate tests \<open>pin.isdigit()\<close>, which also
  accepts digits outside that range. A PIN of four characters U+00B2 (SUPERSCRIPT TWO)
  passes the gate and the validator raises \<open>ValueError\<close>, whatever dates are supplied;
  the PIN U+0661 U+0662 U+0663 U+0664 (ARABIC-INDIC DIGITS ONE to FOUR) passes the gate,
  is read as the sequence 1, 2, 3, 4 and is WEAK with the reason COMMONLY_USED.
\<close>

theorem format_gate_misses_non_ascii_digits:
  "0xB2 \<notin> set (py_str ''0123456789'')
   \<and> check_pin_strength cy [0xB2, 0xB2, 0xB2, 0xB2] dob_self dob_spouse anniversary
       = Inl ValueError
   \<and> 0x661 \<notin> set (py_str ''0123456789'')
   \<and> check_pin_strength cy [0x661, 0x662, 0x663, 0x664] None None None
       = Inr \<lparr>strength = py_str ''WEAK'', reasons = [REASON_COMMONLY_USED]\<rparr>
   \<and> check_pin_strength cy [0x661, 0x662, 0x663, 0x664] dob_self dob_spouse anniversary
       \<noteq> Inr \<lparr>strength = py_str ''STRONG'', reasons = []\<rparr>"
proof -
  have n: "0xB2 \<notin> set (py_str ''0123456789'')" "0x661 \<notin> set (py_str ''0123456789'')"
    by (simp_all add: py_str_def)
  have v: "decimal_value 0xB2 = None"
    by (simp add: decimal_value_def decimal_zeros_def)
  have d: "str_isdigit [0xB2, 0xB2, 0xB2, 0xB2]"
    by (simp add: str_isdigit_def char_isdigit_def other_digit_ranges_def)
  have r: "check_pin_strength cy [0xB2, 0xB2, 0xB2, 0xB2] dob_self dob_spouse anniversary
             = Inl ValueError"
    using d v by (simp add: check_pin_strength_raises_iff)
  have w: "check_pin_strength cy [0x661, 0x662, 0x663, 0x664] None None None
             = Inr \<lparr>strength = py_str ''WEAK'', reasons = [REASON_COMMONLY_USED]\<rparr>"
    by (rule no_dates_weak [where s = True]) (simp_all add: arabic_indic_pin)
  have s: "check_pin_strength cy [0x661, 0x662, 0x663, 0x664] dob_self dob_spouse anniversary
             \<noteq> Inr \<lparr>strength = py_str ''STRONG'', reasons = []\<rparr>"
    by (simp add: check_pin_strength_accepted [where s = True] arabic_indic_pin)
  show ?thesis
    using n r w s by (intro conjI)
qed

theorem format_gate_misses_non_ascii_digits_witness:
  "check_pin_strength 2026 [0xB2, 0xB2, 0xB2, 0xB2] None None None = Inl ValueError
   \<and> check_pin_strength 2026 [0x661, 0x662, 0x663, 0x664] None None None
       = Inr \<lparr>strength = py_str ''WEAK'', reasons = [REASON_COMMONLY_USED]\<rparr>"
  using format_gate_misses_non_ascii_digits [of 2026 None None None] by simp

text \<open>
  Claim C3. Whenever the validator returns a verdict, its reasons are non-empty exactly
  when the strength is WEAK, and empty exactly when the strength is STRONG.
\<close>

theorem reasons_strength_coupling:
  assumes "check_pin_strength cy pin dob_self dob_spouse anniversary = Inr v"
  shows "(reasons v \<noteq> [] \<longleftrightarrow> strength v = py_str ''WEAK'') \<and>
         (reasons v = [] \<longleftrightarrow> strength v = py_str ''STRONG'')"
proof -
  have "strength v = (if reasons v \<noteq> [] then py_str ''WEAK'' else py_str ''STRONG'')"
    using assms by (rule check_pin_strength_coupled)
  then show ?thesis
    using reason_codes_distinct(7) by auto
qed

theorem reasons_strength_coupling_witness:
  "check_pin_strength 2026 (py_str ''1234'') None None None
     = Inr \<lparr>strength = py_str ''WEAK'', reasons = [REASON_COMMONLY_USED]\<rparr>
   \<and> reasons \<lparr>strength = py_str ''WEAK'', reasons = [REASON_COMMONLY_USED]\<rparr> \<noteq> []
   \<and> strength \<lparr>strength = py_str ''WEAK'', reasons = [REASON_COMMONLY_USED]\<rparr> = py_str ''WEAK''
   \<and> strength \<lparr>strength = py_str ''WEAK'', reasons = [REASON_COMMONLY_USED]\<rparr> \<noteq> py_str ''STRONG''"
proof -
  have e: "check_pin_strength 2026 (py_str ''1234'') None None None
           = Inr \<lparr>strength = py_str ''WEAK'', reasons = [REASON_COMMONLY_USED]\<rparr>"
    by (rule no_dates_weak [where s = True])
       (simp_all add: str_isdigit_examples length_examples is_sequence_examples)
  show ?thesis
    using e reasons_strength_coupling [OF e] by simp
qed

text \<open>
  Claim C4. With no dates, "1234", "8901", "9876" and "2468" are WEAK with the single
  reason COMMONLY_USED and "1235" is STRONG with no reasons. The sequence detector, on a
  string of at least two characters that \<open>int\<close> converts to the digits \<open>ds\<close>, accepts
  exactly when every digit from the third on is the one before it plus the difference of
  the first two, modulo 10.
\<close>

theorem sequence_detection:
  "check_pin_strength cy (py_str ''1234'') None None None
     = Inr \<lparr>strength = py_str ''WEAK'', reasons = [REASON_COMMONLY_USED]\<rparr>
   \<and> check_pin_strength cy (py_str ''8901'') None None None
     = Inr \<lparr>strength = py_str ''WEAK'', reasons = [REASON_COMMONLY_USED]\<rparr>
   \<and> check_pin_strength cy (py_str ''9876'') None None None
     = Inr \<lparr>strength = py_str ''WEAK'', reasons = [REASON_COMMONLY_USED]\<rparr>
   \<and> check_pin_strength cy (py_str ''2468'') None None None
     = Inr \<lparr>strength = py_str ''WEAK'', reasons = [REASON_COMMONLY_USED]\<rparr>
   \<and> check_pin_strength cy (py_str ''1235'') None None None
     = Inr \<lparr>strength = py_str ''STRONG'', reasons = []\<rparr>
   \<and> (2 \<le> length pin \<and> to_digits pin = Inr ds \<longrightarrow>
        is_sequence pin =
          Inr (\<forall>i. 1 \<le> i \<and> i + 1 < length ds \<longrightarrow>
                 ds ! (i + 1) = (ds ! i + (ds ! 1 - ds ! 0)) mod 10))"
proof -
  have "check_pin_strength cy (py_str ''1234'') None None None
          = Inr \<lparr>strength = py_str ''WEAK'', reasons = [REASON_COMMONLY_USED]\<rparr>"
    by (rule no_dates_weak [where s = True])
       (simp_all add: str_isdigit_examples length_examples is_sequence_examples)
  moreover have "check_pin_strength cy (py_str ''8901'') None None None
          = Inr \<lparr>strength = py_str ''WEAK'', reasons = [REASON_COMMONLY_USED]\<rparr>"
    by (rule no_dates_weak [where s = True])
       (simp_all add: str_isdigit_examples length_examples is_sequence_examples)
  moreover have "check_pin_strength cy (py_str ''9876'') None None None
          = Inr \<lparr>strength = py_str ''WEAK'', reasons = [REASON_COMMONLY_USED]\<rparr>"
    by (rule no_dates_weak [where s = True])
       (simp_all add: str_isdigit_examples length_examples is_sequence_examples)
  moreover have "check_pin_strength cy (py_str ''2468'') None None None
          = Inr \<lparr>strength = py_str ''WEAK'', reasons = [REASON_COMMONLY_USED]\<rparr>"
    by (rule no_dates_weak [where s = True])
       (simp_all add: str_isdigit_examples length_examples is_sequence_examples)
  moreover have "check_pin_strength cy (py_str ''1235'') None None None
          = Inr \<lparr>strength = py_str ''STRONG'', reasons = []\<rparr>"
    by (rule no_dates_strong)
       (simp_all add: str_isdigit_examples length_examples is_sequence_examples
          is_repetition_examples is_palindrome_examples is_keypad_pattern_examples)
  moreover have "2 \<le> length pin \<and> to_digits pin = Inr ds \<longrightarrow>
        is_sequence pin =
          Inr (\<forall>i. 1 \<le> i \<and> i + 1 < length ds \<longrightarrow>
                 ds ! (i + 1) = (ds ! i + (ds ! 1 - ds ! 0)) mod 10)"
    using is_sequence_progression by blast
  ultimately show ?thesis
    by (intro conjI)
qed

theorem sequence_detection_witness:
  "2 \<le> length (py_str ''2468'') \<and> to_digits (py_str ''2468'') = Inr [2, 4, 6, 8]
   \<and> is_sequence (py_str ''2468'') = Inr True
   \<and> check_pin_strength 2026 (py_str ''2468'') None None None
     = Inr \<lparr>strength = py_str ''WEAK'', reasons = [REASON_COMMONLY_USED]\<rparr>
   \<and> check_pin_strength 2026 (py_str ''1235'') None None None
     = Inr \<lparr>strength = py_str ''STRONG'', reasons = []\<rparr>"
proof -
  have d: "to_digits (py_str ''2468'') = Inr [2, 4, 6, 8]"
    using to_digits_ascii [of "py_str ''2468''"] by (simp add: py_str_def)
  have l: "2 \<le> length (py_str ''2468'')"
    by (simp add: py_str_def)
  show ?thesis
    using sequence_detection [of 2026 "py_str ''2468''" "[2, 4, 6, 8]"] d l
    by (simp add: is_sequence_examples)
qed

text \<open>
  Claim C5. With no dates, "2580", "1478" and "1397" are WEAK with the single reason
  COMMONLY_USED; the claim expects "1739" to be STRONG. The keypad detector does reject
  "1739", but the sequence detector accepts it: 1, 7, 3, 9 advance by 6 modulo 10 (the
  step -4). The validator returns WEAK with the reason COMMONLY_USED.
\<close>

theorem corners_1739_is_weak:
  "check_pin_strength cy (py_str ''1739'') None None None
     = Inr \<lparr>strength = py_str ''WEAK'', reasons = [REASON_COMMONLY_USED]\<rparr>
   \<and> is_sequence (py_str ''1739'') = Inr True
   \<and> \<not> is_repetition (py_str ''1739'') \<and> \<not> is_palindrome (py_str ''1739'')
   \<and> \<not> is_keypad_pattern (py_str ''1739'')"
proof -
  have "check_pin_strength cy (py_str ''1739'') None None None
          = Inr \<lparr>strength = py_str ''WEAK'', reasons = [REASON_COMMONLY_USED]\<rparr>"
    by (rule no_dates_weak [where s = True])
       (simp_all add: str_isdigit_examples length_examples is_sequence_examples)
  then show ?thesis
    by (simp add: is_sequence_examples is_repetition_examples is_palindrome_examples
          is_keypad_pattern_examples)
qed

theorem corners_1739_is_weak_witness:
  "check_pin_strength 2026 (py_str ''1739'') None None None
     = Inr \<lparr>strength = py_str ''WEAK'', reasons = [REASON_COMMONLY_USED]\<rparr>"
  using corners_1739_is_weak [of 2026] by simp

lemma keypad_examples:
  "check_pin_strength cy (py_str ''2580'') None None None
     = Inr \<lparr>strength = py_str ''WEAK'', reasons = [REASON_COMMONLY_USED]\<rparr>"
  "check_pin_strength cy (py_str ''1478'') None None None
     = Inr \<lparr>strength = py_str ''WEAK'', reasons = [REASON_COMMONLY_USED]\<rparr>"
  "check_pin_strength cy (py_str ''1397'') None None None
     = Inr \<lparr>strength = py_str ''WEAK'', reasons = [REASON_COMMONLY_USED]\<rparr>"
  by (rule no_dates_weak [where s = False];
      simp add: str_isdigit_examples length_examples is_sequence_examples
        is_keypad_pattern_examples)+

text \<open>
  Claim C6. As dob_self, the date 1990-03-05 makes "0503" and "0305" WEAK with the single
  reason DEMOGRAPHIC_DOB_SELF; so does 1998-01-02 for "020198" and 2004-01-02 for
  "020104", whatever year the clock shows.
\<close>

theorem date_projection_examples:
  "check_pin_strength cy (py_str ''0503'') (Some \<lparr>year = 1990, month = 3, day = 5\<rparr>) None None
     = Inr \<lparr>strength = py_str ''WEAK'', reasons = [REASON_DOB_SELF]\<rparr>
   \<and> check_pin_strength cy (py_str ''0305'') (Some \<lparr>year = 1990, month = 3, day = 5\<rparr>) None None
     = Inr \<lparr>strength = py_str ''WEAK'', reasons = [REASON_DOB_SELF]\<rparr>
   \<and> check_pin_strength cy (py_str ''020198'') (Some \<lparr>year = 1998, month = 1, day = 2\<rparr>) None None
     = Inr \<lparr>strength = py_str ''WEAK'', reasons = [REASON_DOB_SELF]\<rparr>
   \<and> check_pin_strength cy (py_str ''020104'') (Some \<lparr>year = 2004, month = 1, day = 2\<rparr>) None None
     = Inr \<lparr>strength = py_str ''WEAK'', reasons = [REASON_DOB_SELF]\<rparr>"
  by (simp add: check_pin_strength_accepted [where s = False] str_isdigit_examples
        length_examples is_sequence_examples is_repetition_examples is_palindrome_examples
        is_keypad_pattern_examples date_matches_examples date_matches_None)

theorem date_projection_examples_witness:
  "check_pin_strength 2026 (py_str ''0503'') (Some \<lparr>year = 1990, month = 3, day = 5\<rparr>) None None
     = Inr \<lparr>strength = py_str ''WEAK'', reasons = [REASON_DOB_SELF]\<rparr>
   \<and> check_pin_strength 1999 (py_str ''020104'') (Some \<lparr>year = 2004, month = 1, day = 2\<rparr>) None None
     = Inr \<lparr>strength = py_str ''WEAK'', reasons = [REASON_DOB_SELF]\<rparr>"
  using date_projection_examples [of 2026] date_projection_examples [of 1999] by simp

text \<open>
  Claim C7. A date that is not a calendar date, such as 1999-02-29, is inert in each of
  the three roles: its projection is empty, it matches no PIN, and the validator does
  with it exactly what it does without it (the same verdict, or the same exception when
  the PIN itself raises one). PIN "2902" with that date as dob_self is STRONG with no
  reasons.
\<close>

theorem invalid_date_inert:
  assumes "\<not> is_valid_date d"
  shows "generate_date_pins cy d = {}
         \<and> \<not> date_matches cy pin (Some d)
         \<and> check_pin_strength cy pin (Some d) b c = check_pin_strength cy pin None b c
         \<and> check_pin_strength cy pin a (Some d) c = check_pin_strength cy pin a None c
         \<and> check_pin_strength cy pin a b (Some d) = check_pin_strength cy pin a b None
         \<and> check_pin_strength cy (py_str ''2902'') (Some d) None None
             = Inr \<lparr>strength = py_str ''STRONG'', reasons = []\<rparr>"
proof -
  have m: "date_matches cy p (Some d) = date_matches cy p None" for p
    using assms by (simp add: date_matches_def)
  have self: "check_pin_strength cy p (Some d) y z = check_pin_strength cy p None y z" for p y z
    by (simp only: check_pin_strength_def m)
  have spouse: "check_pin_strength cy pin a (Some d) c = check_pin_strength cy pin a None c"
    by (simp only: check_pin_strength_def m)
  have anniv: "check_pin_strength cy pin a b (Some d) = check_pin_strength cy pin a b None"
    by (simp only: check_pin_strength_def m)
  have "check_pin_strength cy (py_str ''2902'') None None None
          = Inr \<lparr>strength = py_str ''STRONG'', reasons = []\<rparr>"
    by (rule no_dates_strong)
       (simp_all add: str_isdigit_examples length_examples is_sequence_examples
          is_repetition_examples is_palindrome_examples is_keypad_pattern_examples)
  then have ex: "check_pin_strength cy (py_str ''2902'') (Some d) None None
                   = Inr \<lparr>strength = py_str ''STRONG'', reasons = []\<rparr>"
    by (simp only: self)
  have empty: "generate_date_pins cy d = {}"
    using assms by (simp add: generate_date_pins_def)
  have nomatch: "\<not> date_matches cy pin (Some d)"
    using assms by (rule date_matches_invalid)
  show ?thesis
    using empty nomatch self [of pin b c] spouse anniv ex by (intro conjI)
qed

theorem invalid_date_inert_witness:
  "\<not> is_valid_date \<lparr>year = 1999, month = 2, day = 29\<rparr>
   \<and> generate_date_pins 2026 \<lparr>year = 1999, month = 2, day = 29\<rparr> = {}
   \<and> check_pin_strength 2026 (py_str ''2902'') (Some \<lparr>year = 1999, month = 2, day = 29\<rparr>) None None
       = Inr \<lparr>strength = py_str ''STRONG'', reasons = []\<rparr>
   \<and> check_pin_strength 2026 (py_str ''2902'') None (Some \<lparr>year = 1999, month = 2, day = 29\<rparr>) None
       = check_pin_strength 2026 (py_str ''2902'') None None None
   \<and> check_pin_strength 2026 (py_str ''2902'') None None (Some \<lparr>year = 1999, month = 2, day = 29\<rparr>)
       = check_pin_strength 2026 (py_str ''2902'') None None None"
proof -
  have h: "\<not> is_valid_date \<lparr>year = 1999, month = 2, day = 29\<rparr>"
    by (simp add: is_valid_date_def)
  show ?thesis
    using h invalid_date_inert [OF h, of 2026 "py_str ''2902''" None None None] by blast
qed

text \<open>
  Claim C8. The claim expects a verdict for every string. A PIN of four characters
  U+00B2 (SUPERSCRIPT TWO) passes the format gate, since \<open>isdigit\<close> accepts the
  character, and then \<open>int\<close> raises \<open>ValueError\<close> on it in the sequence detector: the
  validator raises, whatever dates are supplied.
\<close>

theorem superscript_pin_raises:
  "check_pin_strength cy [0xB2, 0xB2, 0xB2, 0xB2] dob_self dob_spouse anniversary
     = Inl ValueError
   \<and> str_isdigit [0xB2, 0xB2, 0xB2, 0xB2] \<and> py_int 0xB2 = Inl ValueError"
proof -
  have v: "decimal_value 0xB2 = None"
    by (simp add: decimal_value_def decimal_zeros_def)
  have d: "str_isdigit [0xB2, 0xB2, 0xB2, 0xB2]"
    by (simp add: str_isdigit_def char_isdigit_def other_digit_ranges_def)
  have "check_pin_strength cy [0xB2, 0xB2, 0xB2, 0xB2] dob_self dob_spouse anniversary
          = Inl ValueError"
    using d v by (simp add: check_pin_strength_raises_iff)
  then show ?thesis
    using d v by (simp add: py_int_def)
qed

theorem superscript_pin_raises_witness:
  "check_pin_strength 2026 [0xB2, 0xB2, 0xB2, 0xB2] None None None = Inl ValueError"
  using superscript_pin_raises [of 2026 None None None] by simp

text \<open>
  Claim C9. The verdict does not depend on the one piece of hidden state the validator
  reads, the current year of the clock: two calls with the same PIN and the same dates
  give the same result, whenever they are made.
\<close>

theorem check_pin_strength_deterministic:
  "check_pin_strength cy1 pin dob_self dob_spouse anniversary
     = check_pin_strength cy2 pin dob_self dob_spouse anniversary"
  by (simp only: check_pin_strength_def date_matches_clock [of cy1 _ _ cy2])

theorem check_pin_strength_deterministic_witness:
  "check_pin_strength 1999 (py_str ''020104'') (Some \<lparr>year = 2004, month = 1, day = 2\<rparr>)
       None (Some \<lparr>year = 1899, month = 12, day = 31\<rparr>)
     = check_pin_strength 2101 (py_str ''020104'') (Some \<lparr>year = 2004, month = 1, day = 2\<rparr>)
       None (Some \<lparr>year = 1899, month = 12, day = 31\<rparr>)"
  by (rule check_pin_strength_deterministic)

text \<open>
  Claim C10. For a valid calendar date the projector returns exactly the five strings
  dd+mm, mm+dd, dd+mm+yy, mm+dd+yy and yy+mm+dd, where dd, mm and yy are the day, the
  month and the year modulo 100, each written with two decimal digits. Whatever the
  current year, a century bucket that applies yields the same yy, so the loop adds
  nothing; the set has at most five elements.
\<close>

theorem generate_date_pins_five_forms:
  assumes "is_valid_date d"
  shows "generate_date_pins cy d =
           {format_02d (day d) @ format_02d (month d),
            format_02d (month d) @ format_02d (day d),
            format_02d (day d) @ format_02d (month d) @ format_02d (year d mod 100),
            format_02d (month d) @ format_02d (day d) @ format_02d (year d mod 100),
            format_02d (year d mod 100) @ format_02d (month d) @ format_02d (day d)}
         \<and> card (generate_date_pins cy d) \<le> 5
         \<and> format_02d (day d) = [48 + nat (day d) div 10, 48 + nat (day d) mod 10]
         \<and> format_02d (month d) = [48 + nat (month d) div 10, 48 + nat (month d) mod 10]
         \<and> format_02d (year d mod 100)
             = [48 + nat (year d mod 100) div 10, 48 + nat (year d mod 100) mod 10]
         \<and> (\<forall>century \<in> {cy div 100 * 100 - 100, cy div 100 * 100}.
               0 \<le> year d - century \<and> year d - century < 100 \<longrightarrow>
               year d - century = year d mod 100)"
proof -
  let ?S = "{format_02d (day d) @ format_02d (month d),
            format_02d (month d) @ format_02d (day d),
            format_02d (day d) @ format_02d (month d) @ format_02d (year d mod 100),
            format_02d (month d) @ format_02d (day d) @ format_02d (year d mod 100),
            format_02d (year d mod 100) @ format_02d (month d) @ format_02d (day d)}"
  have g: "generate_date_pins cy d = ?S"
    using assms by (rule generate_date_pins_valid)
  have "card ?S \<le> 5"
    by (rule card_five)
  then have c: "card (generate_date_pins cy d) \<le> 5"
    by (simp only: g)
  have r: "1 \<le> day d \<and> day d \<le> 31 \<and> 1 \<le> month d \<and> month d \<le> 12"
    using assms by (rule valid_date_ranges)
  have dd: "format_02d (day d) = [48 + nat (day d) div 10, 48 + nat (day d) mod 10]"
    using r by (intro format_02d_two_digits) auto
  have mm: "format_02d (month d) = [48 + nat (month d) div 10, 48 + nat (month d) mod 10]"
    using r by (intro format_02d_two_digits) auto
  have yy: "format_02d (year d mod 100)
              = [48 + nat (year d mod 100) div 10, 48 + nat (year d mod 100) mod 10]"
    by (intro format_02d_two_digits) auto
  have b: "\<forall>century \<in> {cy div 100 * 100 - 100, cy div 100 * 100}.
               0 \<le> year d - century \<and> year d - century < 100 \<longrightarrow>
               year d - century = year d mod 100"
    using year_in_century current_century_mod by blast
  show ?thesis
    using g c dd mm yy b by (intro conjI)
qed

theorem generate_date_pins_five_forms_witness:
  "is_valid_date \<lparr>year = 1990, month = 3, day = 5\<rparr>
   \<and> generate_date_pins 2026 \<lparr>year = 1990, month = 3, day = 5\<rparr>
       = {py_str ''0503'', py_str ''0305'', py_str ''050390'', py_str ''030590'', py_str ''900305''}
   \<and> card (generate_date_pins 2026 \<lparr>year = 1990, month = 3, day = 5\<rparr>) \<le> 5"
proof -
  have h: "is_valid_date \<lparr>year = 1990, month = 3, day = 5\<rparr>"
    by (simp add: is_valid_date_def)
  show ?thesis
    using h generate_date_pins_five_forms [OF h, of 2026]
    by (simp add: format_02d_examples py_str_def)
qed

end
